theory Spec2Isabelle
  imports Complex_Main "HOL-Library.Word"
begin

section \<open>The RTP player dialog: routing tapped packets to audio streams\<close>

text \<open>
  The development follows \<^verbatim>\<open>ui/qt/rtp_player_dialog.cpp\<close>. The dialog keeps one
  \<^verbatim>\<open>RtpAudioStream\<close> per row of its stream tree and hands every tapped RTP packet to
  the first row whose stream matches it. The class \<^verbatim>\<open>RtpAudioStream\<close> is defined
  elsewhere (\<^verbatim>\<open>rtp_audio_stream.cpp\<close>): the functions of the dialog take the methods
  they call on it as arguments, so that what is proved about the dialog holds for every
  implementation of them.
\<close>

subsection \<open>What the tap delivers\<close>

text \<open>
  \<^verbatim>\<open>frame_data\<close>, \<^verbatim>\<open>packet_info\<close> and \<^verbatim>\<open>struct _rtp_info\<close> with the fields the
  dialog and the stream key read. \<^verbatim>\<open>passed_dfilter\<close> is a one-bit field and
  \<^verbatim>\<open>info_version\<close> an unsigned int, of which \<^verbatim>\<open>tapPacket\<close> reads only whether they
  are 0 and 2; the frame number \<^verbatim>\<open>num\<close> is a guint32; times are seconds, kept exact.
\<close>

type_synonym address = string

record frame_data =
  num :: "32 word"
  passed_dfilter :: "1 word"

record packet_info =
  fd :: frame_data
  src :: address
  srcport :: "32 word"
  dst :: address
  destport :: "32 word"
  rel_ts :: rat
  abs_ts :: rat

record rtp_info =
  info_version :: "32 word"
  info_seq_num :: "16 word"
  info_timestamp :: "32 word"
  info_sync_src :: "32 word"
  info_payload_type :: "32 word"
  info_data :: "8 word list"

datatype tap_packet_status = TAP_PACKET_DONT_REDRAW | TAP_PACKET_REDRAW | TAP_PACKET_FAILED

subsection \<open>The dialog\<close>

text \<open>
  The state of the dialog that the functions below read and write: the top-level items of
  \<^verbatim>\<open>ui->streamTreeWidget\<close> in row order, each with the \<^verbatim>\<open>RtpAudioStream\<close> stored in
  its \<^verbatim>\<open>stream_data_col_\<close> (every row owns a stream of its own: \<^verbatim>\<open>addRtpStream\<close>
  creates one with \<^verbatim>\<open>new\<close> for each row it adds), the row of the current item if there
  is one, and the time-of-day check box. The type \<open>'s\<close> is the stream's.
\<close>

record 's RtpPlayerDialog =
  streamTreeWidget :: "'s list"
  current_row :: "nat option"
  todCheckBox :: bool

text \<open>
  \<^verbatim>\<open>RtpPlayerDialog::addPacket\<close>: the loop over the rows, from row 0 upwards. The first
  row whose stream matches gets the packet and the function returns; when the loop runs
  out, nothing has happened.
\<close>

fun addPacket_rows ::
  "('s \<Rightarrow> packet_info \<Rightarrow> rtp_info \<Rightarrow> bool) \<Rightarrow> ('s \<Rightarrow> packet_info \<Rightarrow> rtp_info \<Rightarrow> 's) \<Rightarrow>
   's list \<Rightarrow> packet_info \<Rightarrow> rtp_info \<Rightarrow> 's list" where
  "addPacket_rows is_match add_rtp_packet [] pinfo rtpinfo = []"
| "addPacket_rows is_match add_rtp_packet (row_stream # rows) pinfo rtpinfo =
     (if is_match row_stream pinfo rtpinfo
      then add_rtp_packet row_stream pinfo rtpinfo # rows
      else row_stream # addPacket_rows is_match add_rtp_packet rows pinfo rtpinfo)"

definition addPacket ::
  "('s \<Rightarrow> packet_info \<Rightarrow> rtp_info \<Rightarrow> bool) \<Rightarrow> ('s \<Rightarrow> packet_info \<Rightarrow> rtp_info \<Rightarrow> 's) \<Rightarrow>
   's RtpPlayerDialog \<Rightarrow> packet_info \<Rightarrow> rtp_info \<Rightarrow> 's RtpPlayerDialog" where
  "addPacket is_match add_rtp_packet d pinfo rtpinfo =
     d\<lparr>streamTreeWidget :=
         addPacket_rows is_match add_rtp_packet (streamTreeWidget d) pinfo rtpinfo\<rparr>"

text \<open>
  \<^verbatim>\<open>RtpPlayerDialog::tapPacket\<close>, the tap listener's callback. The two pointers may be
  null (\<open>None\<close>); the result is the status and the dialog as the call leaves it.
\<close>

definition tapPacket ::
  "('s \<Rightarrow> packet_info \<Rightarrow> rtp_info \<Rightarrow> bool) \<Rightarrow> ('s \<Rightarrow> packet_info \<Rightarrow> rtp_info \<Rightarrow> 's) \<Rightarrow>
   's RtpPlayerDialog option \<Rightarrow> packet_info \<Rightarrow> rtp_info option \<Rightarrow>
   tap_packet_status \<times> 's RtpPlayerDialog option" where
  "tapPacket is_match add_rtp_packet tapinfo_ptr pinfo rtpinfo_ptr =
     (case tapinfo_ptr of
        None \<Rightarrow> (TAP_PACKET_DONT_REDRAW, None)
      | Some rtp_player_dialog \<Rightarrow>
          (case rtpinfo_ptr of
             None \<Rightarrow> (TAP_PACKET_DONT_REDRAW, Some rtp_player_dialog)
           | Some rtpinfo \<Rightarrow>
               if passed_dfilter (fd pinfo) = 0
               then (TAP_PACKET_DONT_REDRAW, Some rtp_player_dialog)
               else if info_version rtpinfo \<noteq> 2
               then (TAP_PACKET_DONT_REDRAW, Some rtp_player_dialog)
               else (TAP_PACKET_DONT_REDRAW,
                     Some (addPacket is_match add_rtp_packet rtp_player_dialog pinfo rtpinfo))))"



section \<open>The audio stream, as the specification describes it\<close>

text \<open>
  The records and functions of this section stand for \<^verbatim>\<open>RtpAudioStream\<close>, whose code
  \<^verbatim>\<open>rtp_player_dialog.cpp\<close> only calls. Each is written from the sentences of the
  specification that its comment quotes.
\<close>

text \<open>
  The timing modes, under the names \<^verbatim>\<open>rescanPackets\<close> uses for them
  (\<^verbatim>\<open>RtpAudioStream::JitterBuffer\<close>, \<^verbatim>\<open>RtpAudioStream::RtpTimestamp\<close>,
  \<^verbatim>\<open>RtpAudioStream::Uninterrupted\<close>).
\<close>

datatype TimingMode = JitterBuffer | RtpTimestamp | Uninterrupted

text \<open>
  Modelled from the spec: the stream key, which \<^verbatim>\<open>RtpAudioStream\<close> holds and the dialog
  never reads. Section 6: "Matching key for stream routing = (src addr, src port, dst addr,
  dst port, SSRC)".
\<close>

record stream_key =
  key_src_addr :: address
  key_src_port :: "32 word"
  key_dst_addr :: address
  key_dst_port :: "32 word"
  key_ssrc :: "32 word"

text \<open>
  Modelled from the spec: the record \<^verbatim>\<open>RtpPacketRecord\<close> of section 3, which the missing
  \<^verbatim>\<open>rtp_audio_stream.cpp\<close> would declare: "stream key (source address, source port,
  destination address, destination port, synchronization source identifier), RTP sequence
  number (16-bit, wraps), RTP timestamp (32-bit, wraps), arrival wall-clock/relative time,
  payload type, raw payload bytes, capture frame number".
\<close>

record RtpPacketRecord =
  pkt_key :: stream_key
  seq_num :: "16 word"
  rtp_timestamp :: "32 word"
  arrival_rel :: rat
  arrival_abs :: rat
  payload_type :: "8 word"
  payload :: "8 word list"
  frame_number :: "32 word"

text \<open>
  Modelled from the spec: the record \<^verbatim>\<open>StreamState\<close> of section 3 together with what
  section 4.2 has the assembler own (the accumulated packet set, in arrival order, the
  OutputTimeline of (time, sample) pairs and the jitter buffer): "expected-next sequence
  number, expected-next RTP timestamp, jitter buffer depth (configurable), chosen timing
  mode, sample rate, cumulative output sample position, start/stop relative time, packet
  and event counters (out-of-sequence, jitter-dropped, wrong-timestamp, inserted-silence
  counts plus their timestamp/sample coordinate lists for plotting)".
\<close>

record StreamState =
  key :: stream_key
  rtp_packets :: "RtpPacketRecord list"
  expected_seq :: "16 word"
  expected_timestamp :: "32 word"
  jitter_buffer_depth :: nat
  timing_mode :: TimingMode
  sample_rate :: nat
  output_position :: nat
  start_rel_time :: rat
  stop_rel_time :: rat
  timeline :: "(rat \<times> int) list"
  jitter_buffer :: "RtpPacketRecord list"
  out_of_seq_count :: nat
  out_of_seq_coords :: "(rat \<times> int) list"
  jitter_dropped_count :: nat
  jitter_dropped_coords :: "(rat \<times> int) list"
  wrong_timestamp_count :: nat
  wrong_timestamp_coords :: "(rat \<times> int) list"
  inserted_silence_count :: nat
  inserted_silence_coords :: "(rat \<times> int) list"

text \<open>
  Modelled from the spec: the key of a tapped packet, which the missing
  \<^verbatim>\<open>RtpAudioStream::isMatch\<close> would compute. Section 6: the packet feed's fields
  "src/dst address, src/dst port, SSRC".
\<close>

definition packet_key :: "packet_info \<Rightarrow> rtp_info \<Rightarrow> stream_key" where
  "packet_key pinfo rtpinfo =
     \<lparr>key_src_addr = src pinfo, key_src_port = srcport pinfo,
      key_dst_addr = dst pinfo, key_dst_port = destport pinfo,
      key_ssrc = info_sync_src rtpinfo\<rparr>"

text \<open>
  Modelled from the spec: \<^verbatim>\<open>RtpAudioStream::isMatch(pinfo, rtpinfo)\<close>, which the dialog
  calls and does not define. Section 6: "Matching key for stream routing = (src addr, src
  port, dst addr, dst port, SSRC)".
\<close>

definition isMatch :: "StreamState \<Rightarrow> packet_info \<Rightarrow> rtp_info \<Rightarrow> bool" where
  "isMatch s pinfo rtpinfo \<longleftrightarrow> key s = packet_key pinfo rtpinfo"

text \<open>
  Modelled from the spec: the \<^verbatim>\<open>RtpPacketRecord\<close> of a tapped packet, which the missing
  \<^verbatim>\<open>RtpAudioStream::addRtpPacket\<close> would build. Section 6: "records with fields {src/dst
  address, src/dst port, SSRC, RTP sequence (u16), RTP timestamp (u32), payload type (u8),
  payload bytes, capture frame number, arrival time}".
\<close>

definition packet_record :: "packet_info \<Rightarrow> rtp_info \<Rightarrow> RtpPacketRecord" where
  "packet_record pinfo rtpinfo =
     \<lparr>pkt_key = packet_key pinfo rtpinfo,
      seq_num = info_seq_num rtpinfo,
      rtp_timestamp = info_timestamp rtpinfo,
      arrival_rel = rel_ts pinfo,
      arrival_abs = abs_ts pinfo,
      payload_type = ucast (info_payload_type rtpinfo),
      payload = info_data rtpinfo,
      frame_number = num (fd pinfo)\<rparr>"

text \<open>
  Modelled from the spec: \<^verbatim>\<open>RtpAudioStream::addRtpPacket(pinfo, rtpinfo)\<close>, which the
  dialog calls and does not define. Section 4.2: "addPacket(packet) (append-only, called
  once per observed packet, order = arrival order)".
\<close>

definition addRtpPacket :: "StreamState \<Rightarrow> packet_info \<Rightarrow> rtp_info \<Rightarrow> StreamState" where
  "addRtpPacket s pinfo rtpinfo = s\<lparr>rtp_packets := rtp_packets s @ [packet_record pinfo rtpinfo]\<rparr>"

text \<open>
  Modelled from the spec: \<^verbatim>\<open>RtpAudioStream::reset(start_time)\<close>, which the dialog
  calls and does not define. Section 4.2: "reset(start_time) (clears timeline and counters, keeps the
  accumulated packet set)"; section 3: "reset (counters and output zeroed, jitter buffer
  emptied)". The fields the two sentences do not name keep their values.
\<close>

definition reset :: "StreamState \<Rightarrow> rat \<Rightarrow> StreamState" where
  "reset s start_time =
     s\<lparr>start_rel_time := start_time,
       output_position := 0,
       timeline := [],
       jitter_buffer := [],
       out_of_seq_count := 0, out_of_seq_coords := [],
       jitter_dropped_count := 0, jitter_dropped_coords := [],
       wrong_timestamp_count := 0, wrong_timestamp_coords := [],
       inserted_silence_count := 0, inserted_silence_coords := []\<rparr>"




section \<open>A capture to run the definitions on\<close>

text \<open>
  Two streams of one conversation that differ in nothing but the SSRC, a third row with
  the key of the first, and three packets of the first stream's key.
\<close>

definition key_a :: stream_key where
  "key_a = \<lparr>key_src_addr = ''10.0.0.1'', key_src_port = 5004,
            key_dst_addr = ''10.0.0.2'', key_dst_port = 6004, key_ssrc = 0x1234\<rparr>"

definition key_b :: stream_key where
  "key_b = key_a\<lparr>key_ssrc := 0x9999\<rparr>"

definition empty_stream :: "stream_key \<Rightarrow> StreamState" where
  "empty_stream k =
     \<lparr>key = k, rtp_packets = [], expected_seq = 0, expected_timestamp = 0,
      jitter_buffer_depth = 50, timing_mode = JitterBuffer, sample_rate = 0,
      output_position = 0, start_rel_time = 0, stop_rel_time = 0, timeline = [],
      jitter_buffer = [],
      out_of_seq_count = 0, out_of_seq_coords = [],
      jitter_dropped_count = 0, jitter_dropped_coords = [],
      wrong_timestamp_count = 0, wrong_timestamp_coords = [],
      inserted_silence_count = 0, inserted_silence_coords = []\<rparr>"

definition pinfo_at :: "32 word \<Rightarrow> 1 word \<Rightarrow> rat \<Rightarrow> packet_info" where
  "pinfo_at n shown t =
     \<lparr>fd = \<lparr>num = n, passed_dfilter = shown\<rparr>,
      src = ''10.0.0.1'', srcport = 5004, dst = ''10.0.0.2'', destport = 6004,
      rel_ts = t, abs_ts = 1000 + t\<rparr>"

definition rtpinfo_at :: "32 word \<Rightarrow> 16 word \<Rightarrow> rtp_info" where
  "rtpinfo_at v sq =
     \<lparr>info_version = v, info_seq_num = sq, info_timestamp = 160 * ucast sq,
      info_sync_src = 0x1234, info_payload_type = 0, info_data = [0xD5, 0xD5]\<rparr>"

definition dialog_3 :: "StreamState RtpPlayerDialog" where
  "dialog_3 =
     \<lparr>streamTreeWidget = [empty_stream key_b, empty_stream key_a, empty_stream key_a],
      current_row = Some 1, todCheckBox = False\<rparr>"

definition stream_3 :: StreamState where
  "stream_3 =
     addRtpPacket
       (addRtpPacket
          (addRtpPacket (empty_stream key_a) (pinfo_at 11 1 (1/2)) (rtpinfo_at 2 1))
          (pinfo_at 14 1 (3/4)) (rtpinfo_at 2 2))
       (pinfo_at 17 1 1) (rtpinfo_at 2 3)"

definition played_stream :: StreamState where
  "played_stream =
     stream_3\<lparr>sample_rate := 8000, output_position := 3, stop_rel_time := 1,
       timeline := [(1/2, 5), (1/2 + 1/8000, -7), (1/2 + 2/8000, 0)],
       jitter_buffer := [packet_record (pinfo_at 17 1 1) (rtpinfo_at 2 3)],
       out_of_seq_count := 1, out_of_seq_coords := [(3/4, 0)],
       jitter_dropped_count := 2, jitter_dropped_coords := [(3/4, 0), (1, 0)],
       wrong_timestamp_count := 1, wrong_timestamp_coords := [(1, 0)],
       inserted_silence_count := 1, inserted_silence_coords := [(1/2 + 2/8000, 0)]\<rparr>"




section \<open>Routing: what the dialog does with a tapped packet\<close>

lemma length_addPacket_rows:
  "length (addPacket_rows m a rows pinfo rtpinfo) = length rows"
  by (induction rows) simp_all

lemma addPacket_rows_no_match:
  "\<forall>s \<in> set rows. \<not> m s pinfo rtpinfo \<Longrightarrow> addPacket_rows m a rows pinfo rtpinfo = rows"
  by (induction rows) simp_all

lemma nth_addPacket_rows:
  "row < length rows \<Longrightarrow>
   addPacket_rows m a rows pinfo rtpinfo ! row =
     (if m (rows ! row) pinfo rtpinfo \<and> (\<forall>r < row. \<not> m (rows ! r) pinfo rtpinfo)
      then a (rows ! row) pinfo rtpinfo else rows ! row)"
proof (induction rows arbitrary: row)
  case Nil
  then show ?case by simp
next
  case (Cons s rows)
  show ?case
  proof (cases row)
    case 0
    then show ?thesis by simp
  next
    case (Suc n)
    with Cons.prems have n: "n < length rows" by simp
    show ?thesis
    proof (cases "m s pinfo rtpinfo")
      case True
      then have "\<not> (\<forall>r < Suc n. \<not> m ((s # rows) ! r) pinfo rtpinfo)"
        by (auto intro: exI [of _ 0])
      with True Suc show ?thesis by auto
    next
      case False
      then show ?thesis
        using Suc Cons.IH [OF n] by (auto simp add: All_less_Suc2)
    qed
  qed
qed

text \<open>
  C9. \<^verbatim>\<open>addPacket\<close> hands the packet to at most one stream. Whatever \<^verbatim>\<open>isMatch\<close> and
  \<^verbatim>\<open>addRtpPacket\<close> do: the tree has the rows it had (none is created); a row's stream
  is the result of \<^verbatim>\<open>addRtpPacket\<close> exactly when it matches and no row above it does,
  and is untouched otherwise; and when no row matches, the dialog is as it was (the
  packet is dropped, and the function has no error to return).
\<close>

theorem addPacket_first_match_wins:
  "length (streamTreeWidget (addPacket m a d pinfo rtpinfo)) = length (streamTreeWidget d) \<and>
   (\<forall>row < length (streamTreeWidget d).
      streamTreeWidget (addPacket m a d pinfo rtpinfo) ! row =
        (if m (streamTreeWidget d ! row) pinfo rtpinfo \<and>
            (\<forall>r < row. \<not> m (streamTreeWidget d ! r) pinfo rtpinfo)
         then a (streamTreeWidget d ! row) pinfo rtpinfo
         else streamTreeWidget d ! row)) \<and>
   ((\<forall>s \<in> set (streamTreeWidget d). \<not> m s pinfo rtpinfo) \<longrightarrow>
      addPacket m a d pinfo rtpinfo = d)"
proof (intro conjI allI impI)
  show "length (streamTreeWidget (addPacket m a d pinfo rtpinfo)) = length (streamTreeWidget d)"
    by (simp add: addPacket_def length_addPacket_rows)
next
  fix row
  assume "row < length (streamTreeWidget d)"
  then show "streamTreeWidget (addPacket m a d pinfo rtpinfo) ! row =
        (if m (streamTreeWidget d ! row) pinfo rtpinfo \<and>
            (\<forall>r < row. \<not> m (streamTreeWidget d ! r) pinfo rtpinfo)
         then a (streamTreeWidget d ! row) pinfo rtpinfo
         else streamTreeWidget d ! row)"
    by (simp add: addPacket_def nth_addPacket_rows)
next
  assume "\<forall>s \<in> set (streamTreeWidget d). \<not> m s pinfo rtpinfo"
  then show "addPacket m a d pinfo rtpinfo = d"
    by (simp add: addPacket_def addPacket_rows_no_match)
qed

theorem addPacket_first_match_wins_witness:
  "length (streamTreeWidget (addPacket isMatch addRtpPacket dialog_3 (pinfo_at 11 1 (1/2)) (rtpinfo_at 2 1))) = 3 \<and>
   streamTreeWidget (addPacket isMatch addRtpPacket dialog_3 (pinfo_at 11 1 (1/2)) (rtpinfo_at 2 1)) ! 0 =
     empty_stream key_b \<and>
   streamTreeWidget (addPacket isMatch addRtpPacket dialog_3 (pinfo_at 11 1 (1/2)) (rtpinfo_at 2 1)) ! 1 =
     addRtpPacket (empty_stream key_a) (pinfo_at 11 1 (1/2)) (rtpinfo_at 2 1) \<and>
   streamTreeWidget (addPacket isMatch addRtpPacket dialog_3 (pinfo_at 11 1 (1/2)) (rtpinfo_at 2 1)) ! 2 =
     empty_stream key_a \<and>
   addPacket isMatch addRtpPacket dialog_3 (pinfo_at 11 1 (1/2)) ((rtpinfo_at 2 1)\<lparr>info_sync_src := 7\<rparr>) =
     dialog_3"
proof -
  let ?p = "pinfo_at 11 1 (1/2)"
  let ?r = "rtpinfo_at 2 1"
  let ?r' = "(rtpinfo_at 2 1)\<lparr>info_sync_src := 7\<rparr>"
  have rows: "streamTreeWidget dialog_3 = [empty_stream key_b, empty_stream key_a, empty_stream key_a]"
    by (simp add: dialog_3_def)
  have a: "isMatch (empty_stream key_a) ?p ?r"
    by (simp add: isMatch_def packet_key_def pinfo_at_def rtpinfo_at_def empty_stream_def key_a_def)
  have b: "\<not> isMatch (empty_stream key_b) ?p ?r"
    by (simp add: isMatch_def packet_key_def pinfo_at_def rtpinfo_at_def empty_stream_def
          key_a_def key_b_def)
  have a': "\<not> isMatch (empty_stream key_a) ?p ?r'"
    by (simp add: isMatch_def packet_key_def pinfo_at_def rtpinfo_at_def empty_stream_def key_a_def)
  have b': "\<not> isMatch (empty_stream key_b) ?p ?r'"
    by (simp add: isMatch_def packet_key_def pinfo_at_def rtpinfo_at_def empty_stream_def
          key_a_def key_b_def)
  note t = addPacket_first_match_wins [of isMatch addRtpPacket dialog_3 ?p ?r]
  note t' = addPacket_first_match_wins [of isMatch addRtpPacket dialog_3 ?p ?r']
  have len: "length (streamTreeWidget (addPacket isMatch addRtpPacket dialog_3 ?p ?r)) = 3"
    using t rows by simp
  have r0: "streamTreeWidget (addPacket isMatch addRtpPacket dialog_3 ?p ?r) ! 0 = empty_stream key_b"
    using t [THEN conjunct2, THEN conjunct1, rule_format, of 0] rows b by simp
  have r1: "streamTreeWidget (addPacket isMatch addRtpPacket dialog_3 ?p ?r) ! 1 =
      addRtpPacket (empty_stream key_a) ?p ?r"
    using t [THEN conjunct2, THEN conjunct1, rule_format, of 1] rows a b by simp
  have r2: "streamTreeWidget (addPacket isMatch addRtpPacket dialog_3 ?p ?r) ! 2 = empty_stream key_a"
    using t [THEN conjunct2, THEN conjunct1, rule_format, of 2] rows a b
    by (auto simp add: nth_Cons')
  have none: "addPacket isMatch addRtpPacket dialog_3 ?p ?r' = dialog_3"
    using t' [THEN conjunct2, THEN conjunct2] rows a' b' by simp
  from len r0 r1 r2 none show ?thesis by simp
qed

text \<open>
  C10. A tapped packet that did not pass the display filter, or whose RTP version is not
  2, reaches no stream: \<^verbatim>\<open>tapPacket\<close> returns with the dialog, and so every stream's
  packet set, timeline and counters, as they were. This holds whatever \<^verbatim>\<open>isMatch\<close> and
  \<^verbatim>\<open>addRtpPacket\<close> would do, so \<^verbatim>\<open>addPacket\<close> is not reached.
\<close>

theorem tapPacket_filtered_not_delivered:
  "passed_dfilter (fd pinfo) = 0 \<or> info_version rtpinfo \<noteq> 2 \<Longrightarrow>
   tapPacket m a (Some d) pinfo (Some rtpinfo) = (TAP_PACKET_DONT_REDRAW, Some d)"
  by (auto simp add: tapPacket_def)

theorem tapPacket_filtered_not_delivered_witness:
  "tapPacket isMatch addRtpPacket (Some dialog_3) (pinfo_at 11 0 (1/2)) (Some (rtpinfo_at 2 1)) =
     (TAP_PACKET_DONT_REDRAW, Some dialog_3) \<and>
   tapPacket isMatch addRtpPacket (Some dialog_3) (pinfo_at 11 1 (1/2)) (Some (rtpinfo_at 1 1)) =
     (TAP_PACKET_DONT_REDRAW, Some dialog_3) \<and>
   tapPacket isMatch addRtpPacket (Some dialog_3) (pinfo_at 11 1 (1/2)) (Some (rtpinfo_at 2 1)) \<noteq>
     (TAP_PACKET_DONT_REDRAW, Some dialog_3)"
proof -
  have shown: "passed_dfilter (fd (pinfo_at 11 0 (1/2))) = 0"
    by (simp add: pinfo_at_def)
  have version: "info_version (rtpinfo_at 1 1) \<noteq> 2"
    by (simp add: rtpinfo_at_def)
  have delivered:
    "tapPacket isMatch addRtpPacket (Some dialog_3) (pinfo_at 11 1 (1/2)) (Some (rtpinfo_at 2 1)) \<noteq>
       (TAP_PACKET_DONT_REDRAW, Some dialog_3)"
    by (simp add: tapPacket_def addPacket_def dialog_3_def isMatch_def packet_key_def
          pinfo_at_def rtpinfo_at_def empty_stream_def key_a_def key_b_def addRtpPacket_def)
  show ?thesis
    using tapPacket_filtered_not_delivered
            [of "pinfo_at 11 0 (1/2)" "rtpinfo_at 2 1" isMatch addRtpPacket dialog_3]
          tapPacket_filtered_not_delivered
            [of "pinfo_at 11 1 (1/2)" "rtpinfo_at 1 1" isMatch addRtpPacket dialog_3]
          shown version delivered
    by simp
qed

section \<open>Looking a packet up by time\<close>






lemma rtp_packets_stream_3:
  "rtp_packets stream_3 =
     [packet_record (pinfo_at 11 1 (1/2)) (rtpinfo_at 2 1),
      packet_record (pinfo_at 14 1 (3/4)) (rtpinfo_at 2 2),
      packet_record (pinfo_at 17 1 1) (rtpinfo_at 2 3)]"
  by (simp add: stream_3_def addRtpPacket_def empty_stream_def)




lemma frame_number_record: "frame_number (packet_record (pinfo_at n shown t) r) = n"
  by (simp add: packet_record_def pinfo_at_def)



section \<open>Resetting a stream\<close>

text \<open>
  C7. \<^verbatim>\<open>reset(start_time)\<close> leaves the accumulated packet set as it was and clears what
  a decode pass produces: the timeline, the output position, the jitter buffer, and the
  four event counts with their coordinate lists. The packets a later decode pass needs
  are all still there.
\<close>

theorem reset_clears_and_keeps_packets:
  "rtp_packets (reset s start_time) = rtp_packets s \<and>
   timeline (reset s start_time) = [] \<and>
   output_position (reset s start_time) = 0 \<and>
   jitter_buffer (reset s start_time) = [] \<and>
   out_of_seq_count (reset s start_time) = 0 \<and>
   out_of_seq_coords (reset s start_time) = [] \<and>
   jitter_dropped_count (reset s start_time) = 0 \<and>
   jitter_dropped_coords (reset s start_time) = [] \<and>
   wrong_timestamp_count (reset s start_time) = 0 \<and>
   wrong_timestamp_coords (reset s start_time) = [] \<and>
   inserted_silence_count (reset s start_time) = 0 \<and>
   inserted_silence_coords (reset s start_time) = []"
  by (simp add: reset_def)

theorem reset_clears_and_keeps_packets_witness:
  "map frame_number (rtp_packets (reset played_stream 3)) = [11, 14, 17] \<and>
   timeline played_stream \<noteq> [] \<and> timeline (reset played_stream 3) = [] \<and>
   jitter_buffer played_stream \<noteq> [] \<and> jitter_buffer (reset played_stream 3) = [] \<and>
   out_of_seq_count played_stream + jitter_dropped_count played_stream +
     wrong_timestamp_count played_stream + inserted_silence_count played_stream = 5 \<and>
   out_of_seq_count (reset played_stream 3) + jitter_dropped_count (reset played_stream 3) +
     wrong_timestamp_count (reset played_stream 3) + inserted_silence_count (reset played_stream 3) = 0 \<and>
   output_position played_stream = 3 \<and> output_position (reset played_stream 3) = 0"
proof -
  have "rtp_packets played_stream = rtp_packets stream_3"
    by (simp add: played_stream_def)
  then have "map frame_number (rtp_packets played_stream) = [11, 14, 17]"
    by (simp add: rtp_packets_stream_3 frame_number_record)
  moreover have "timeline played_stream \<noteq> []" "jitter_buffer played_stream \<noteq> []"
    "output_position played_stream = 3"
    "out_of_seq_count played_stream + jitter_dropped_count played_stream +
     wrong_timestamp_count played_stream + inserted_silence_count played_stream = 5"
    by (simp_all add: played_stream_def)
  ultimately show ?thesis
    using reset_clears_and_keeps_packets [of played_stream 3] by simp
qed

end
